theory Spec2Isabelle
  imports Complex_Main "HOL-Library.List_Lexorder" "HOL-Library.Char_ord" "HOL-Library.AList"
    "HOL-Library.Multiset"
begin

section \<open>Data model (src/lib/types/index.ts)\<close>

text \<open>
  Identifiers are JavaScript strings. A \<^verbatim>\<open>Date\<close> is its millisecond time stamp, a
  JavaScript \<^verbatim>\<open>number\<close> that holds an index or a counter is an \<^typ>\<open>int\<close>, and a
  \<^verbatim>\<open>number\<close> that is the result of a division is a \<^typ>\<open>real\<close>. An optional field
  (\<^verbatim>\<open>endTime?\<close>) is an \<^typ>\<open>'a option\<close>. A \<^verbatim>\<open>Map\<close> is a partial function and a
  \<^verbatim>\<open>Set\<close> a set: no operation modelled here observes their iteration order.
\<close>

type_synonym question_id = string
type_synonym option_id = string

record answer_option =
  opt_id :: option_id
  opt_text :: string
  opt_letter :: string

datatype question_type = MCQ | MCMA

record question =
  q_id :: question_id
  q_number :: int
  q_type :: question_type
  q_text :: string
  q_options :: "answer_option list"
  correctAnswers :: "option_id list"
  explanation :: "string option"

record exam =
  exam_id :: string
  title :: string
  questionCount :: int
  questions :: "question list"

datatype quiz_mode = Practice | ExamMode

record quiz_state =
  examId :: string
  mode :: quiz_mode
  currentQuestionIndex :: int
  answers :: "question_id \<rightharpoonup> option_id list"
  flaggedQuestions :: "question_id set"
  startTime :: int
  endTime :: "int option"
  submitted :: bool
  timeElapsed :: "int option"
  isReview :: "bool option"

record answer_history_entry =
  questionId :: question_id
  previousAnswers :: "option_id list"
  newAnswers :: "option_id list"
  entry_timestamp :: int

record quiz_state_snapshot =
  snap_state :: quiz_state
  snap_timestamp :: int
  version :: int

datatype nav_reason = Next | Previous | Jump | Review

record navigation_pattern =
  fromQuestion :: int
  toQuestion :: int
  nav_timestamp :: int
  reason :: "nav_reason option"

record quiz_analytics =
  totalTimeSpent :: int
  averageQuestionTime :: real
  questionsRevisited :: int
  flagsUsed :: int
  navigationPatterns :: "navigation_pattern list"

record state_manager_config =
  autoSaveInterval :: int
  maxHistorySize :: int
  offlineRetryAttempts :: int
  storageQuotaWarningThreshold :: int
  enableAnalytics :: bool

definition DEFAULT_CONFIG :: state_manager_config where
  "DEFAULT_CONFIG = \<lparr> autoSaveInterval = 5000, maxHistorySize = 50, offlineRetryAttempts = 3,
     storageQuotaWarningThreshold = 80, enableAnalytics = True \<rparr>"

section \<open>The quiz store (createQuizStore)\<close>

text \<open>
  The closure of \<^verbatim>\<open>createQuizStore\<close>: the writable session state, the two histories, the
  snapshot cursor, the analytics record and whether the auto-save interval is armed.
  Every operation takes the store and returns the new store; \<^verbatim>\<open>new Date()\<close> is the
  argument \<open>now\<close>. \<^verbatim>\<open>StorageManager.saveQuizState\<close> is called for its effect on
  localStorage only (its result is dropped and nothing is read back outside \<^verbatim>\<open>init\<close>), so
  the store model carries no storage; the storage manager is modelled on its own below.
\<close>

record quiz_store =
  state :: quiz_state
  answerHistory :: "answer_history_entry list"
  stateSnapshots :: "quiz_state_snapshot list"
  currentSnapshotIndex :: int
  analytics :: quiz_analytics
  autoSaveTimer :: bool

text \<open>\<^verbatim>\<open>xs.slice(start)\<close>: a negative start counts from the end, and both are clamped.\<close>

definition js_slice_from :: "int \<Rightarrow> 'a list \<Rightarrow> 'a list" where
  "js_slice_from start xs =
     (let len = int (length xs);
          k = (if start < 0 then max (len + start) 0 else min start len)
      in drop (nat k) xs)"

text \<open>\<^verbatim>\<open>answers.get(id) || []\<close>: the stored selection, or the empty array for a missing key.\<close>

definition selectionOf :: "(question_id \<rightharpoonup> option_id list) \<Rightarrow> question_id \<Rightarrow> option_id list" where
  "selectionOf answerMap qid = (case answerMap qid of Some v \<Rightarrow> v | None \<Rightarrow> [])"

definition defaultState :: "int \<Rightarrow> quiz_state" where
  "defaultState created = \<lparr> examId = [], mode = ExamMode, currentQuestionIndex = 0,
     answers = Map.empty, flaggedQuestions = {}, startTime = created, endTime = None,
     submitted = False, timeElapsed = None, isReview = None \<rparr>"

definition emptyAnalytics :: quiz_analytics where
  "emptyAnalytics = \<lparr> totalTimeSpent = 0, averageQuestionTime = 0, questionsRevisited = 0,
     flagsUsed = 0, navigationPatterns = [] \<rparr>"

text \<open>
  \<^verbatim>\<open>createSnapshot\<close> deep-copies the state through JSON (the map as its entries, the set
  as an array, the dates as ISO strings) and \<^verbatim>\<open>restoreFromSnapshot\<close> rebuilds the map, the
  set and the dates; on the field types above the round trip is the identity.
\<close>

definition createSnapshot :: "int \<Rightarrow> quiz_state \<Rightarrow> quiz_state_snapshot" where
  "createSnapshot now s = \<lparr> snap_state = s, snap_timestamp = now, version = 1 \<rparr>"

definition restoreFromSnapshot :: "quiz_state_snapshot \<Rightarrow> quiz_state" where
  "restoreFromSnapshot snapshot =
     (snap_state snapshot)\<lparr> answers := answers (snap_state snapshot),
        flaggedQuestions := flaggedQuestions (snap_state snapshot),
        startTime := startTime (snap_state snapshot),
        endTime := endTime (snap_state snapshot) \<rparr>"

definition trackNavigation ::
  "state_manager_config \<Rightarrow> int \<Rightarrow> int \<Rightarrow> int \<Rightarrow> nav_reason option \<Rightarrow> quiz_analytics \<Rightarrow> quiz_analytics" where
  "trackNavigation config now from to why current =
     (if \<not> enableAnalytics config then current
      else current\<lparr> navigationPatterns :=
             js_slice_from (- 49) (navigationPatterns current) @
             [\<lparr> fromQuestion = from, toQuestion = to, nav_timestamp = now, reason = why \<rparr>] \<rparr>)"

text \<open>The store as \<^verbatim>\<open>createQuizStore\<close> leaves it, before \<^verbatim>\<open>init\<close>.\<close>

definition createQuizStore :: "int \<Rightarrow> quiz_store" where
  "createQuizStore created =
     \<lparr> state = defaultState created, answerHistory = [], stateSnapshots = [],
       currentSnapshotIndex = - 1, analytics = emptyAnalytics, autoSaveTimer = False \<rparr>"

text \<open>
  \<^verbatim>\<open>init\<close>: \<open>savedState\<close> is what \<^verbatim>\<open>StorageManager.loadQuizState(exam.id)\<close> returned.
\<close>

definition init ::
  "int \<Rightarrow> quiz_state option \<Rightarrow> exam \<Rightarrow> quiz_mode \<Rightarrow> quiz_store \<Rightarrow> quiz_store" where
  "init now savedState ex md st =
     (let fresh = \<lparr> examId = exam_id ex, mode = md, currentQuestionIndex = 0,
                    answers = Map.empty, flaggedQuestions = {}, startTime = now,
                    endTime = None, submitted = False, timeElapsed = None, isReview = None \<rparr>;
          (newState, newAnalytics) =
            (case savedState of
               None \<Rightarrow> (fresh, emptyAnalytics)
             | Some saved \<Rightarrow>
                 if \<not> submitted saved
                 then (saved,
                       \<lparr> totalTimeSpent = (case timeElapsed saved of Some t \<Rightarrow> t | None \<Rightarrow> 0),
                         averageQuestionTime = 0, questionsRevisited = 0,
                         flagsUsed = int (card (flaggedQuestions saved)),
                         navigationPatterns = [] \<rparr>)
                 else (fresh, emptyAnalytics))
      in \<lparr> state = newState, answerHistory = [],
           stateSnapshots = [createSnapshot now newState], currentSnapshotIndex = 0,
           analytics = newAnalytics, autoSaveTimer = True \<rparr>)"

definition goToQuestion :: "state_manager_config \<Rightarrow> int \<Rightarrow> int \<Rightarrow> quiz_store \<Rightarrow> quiz_store" where
  "goToQuestion config now index st =
     (let s = state st;
          a1 = trackNavigation config now (currentQuestionIndex s) index (Some Jump) (analytics st);
          a2 = (if enableAnalytics config \<and> index < currentQuestionIndex s
                then a1\<lparr> questionsRevisited := questionsRevisited a1 + 1 \<rparr> else a1)
      in st\<lparr> state := s\<lparr> currentQuestionIndex := index \<rparr>, analytics := a2 \<rparr>)"

definition nextQuestion :: "state_manager_config \<Rightarrow> int \<Rightarrow> quiz_store \<Rightarrow> quiz_store" where
  "nextQuestion config now st =
     (let s = state st;
          newIndex = min (currentQuestionIndex s + 1) 999;
          a1 = trackNavigation config now (currentQuestionIndex s) newIndex (Some Next) (analytics st)
      in st\<lparr> state := s\<lparr> currentQuestionIndex := newIndex \<rparr>, analytics := a1 \<rparr>)"

definition previousQuestion :: "state_manager_config \<Rightarrow> int \<Rightarrow> quiz_store \<Rightarrow> quiz_store" where
  "previousQuestion config now st =
     (let s = state st;
          newIndex = max (currentQuestionIndex s - 1) 0;
          a1 = trackNavigation config now (currentQuestionIndex s) newIndex (Some Previous) (analytics st);
          a2 = (if enableAnalytics config
                then a1\<lparr> questionsRevisited := questionsRevisited a1 + 1 \<rparr> else a1)
      in st\<lparr> state := s\<lparr> currentQuestionIndex := newIndex \<rparr>, analytics := a2 \<rparr>)"

definition answerQuestion ::
  "state_manager_config \<Rightarrow> int \<Rightarrow> question_id \<Rightarrow> option_id list \<Rightarrow> quiz_store \<Rightarrow> quiz_store" where
  "answerQuestion config now qid selectedAnswers st =
     (let s = state st;
          prev = selectionOf (answers s) qid;
          history = js_slice_from (- maxHistorySize config + 1) (answerHistory st) @
             [\<lparr> questionId = qid, previousAnswers = prev, newAnswers = selectedAnswers,
                entry_timestamp = now \<rparr>];
          newAnswers = (if length selectedAnswers > 0 then (answers s)(qid \<mapsto> selectedAnswers)
                        else (answers s)(qid := None));
          newState = s\<lparr> answers := newAnswers \<rparr>;
          snapshots = js_slice_from (- maxHistorySize config + 1) (stateSnapshots st) @
             [createSnapshot now newState]
      in st\<lparr> state := newState, answerHistory := history, stateSnapshots := snapshots,
             currentSnapshotIndex := currentSnapshotIndex st + 1 \<rparr>)"

definition toggleFlag :: "state_manager_config \<Rightarrow> question_id \<Rightarrow> quiz_store \<Rightarrow> quiz_store" where
  "toggleFlag config qid st =
     (let s = state st;
          wasRemoved = (qid \<in> flaggedQuestions s);
          newFlagged = (if wasRemoved then flaggedQuestions s - {qid}
                        else insert qid (flaggedQuestions s));
          a = analytics st;
          a1 = (if enableAnalytics config
                then a\<lparr> flagsUsed := (if wasRemoved then flagsUsed a - 1 else flagsUsed a + 1) \<rparr>
                else a)
      in st\<lparr> state := s\<lparr> flaggedQuestions := newFlagged \<rparr>, analytics := a1 \<rparr>)"

definition undoAnswer :: "quiz_store \<Rightarrow> bool \<times> quiz_store" where
  "undoAnswer st =
     (if length (answerHistory st) = 0 \<or> currentSnapshotIndex st \<le> 0 then (False, st)
      else
        let lastEntry = last (answerHistory st);
            s = state st;
            newAnswers = (if length (previousAnswers lastEntry) > 0
                          then (answers s)(questionId lastEntry \<mapsto> previousAnswers lastEntry)
                          else (answers s)(questionId lastEntry := None))
        in (True, st\<lparr> state := s\<lparr> answers := newAnswers \<rparr>,
                      answerHistory := butlast (answerHistory st),
                      currentSnapshotIndex := max 0 (currentSnapshotIndex st - 1) \<rparr>))"

text \<open>
  \<^verbatim>\<open>redoAnswer\<close> reads \<^verbatim>\<open>snapshots[currentIndex + 1]\<close>. A negative index reads
  \<^verbatim>\<open>undefined\<close>, and \<^verbatim>\<open>restoreFromSnapshot(undefined)\<close> throws a TypeError.
\<close>

datatype js_error = TypeError

definition redoAnswer :: "quiz_store \<Rightarrow> js_error + bool \<times> quiz_store" where
  "redoAnswer st =
     (let snapshots = stateSnapshots st; currentIndex = currentSnapshotIndex st
      in if currentIndex \<ge> int (length snapshots) - 1 then Inr (False, st)
         else if currentIndex + 1 < 0 then Inl TypeError
         else Inr (True, st\<lparr> state := restoreFromSnapshot (snapshots ! nat (currentIndex + 1)),
                              currentSnapshotIndex := currentIndex + 1 \<rparr>))"

definition submit :: "int \<Rightarrow> quiz_store \<Rightarrow> quiz_store" where
  "submit now st =
     (let s = state st;
          totalTime = now - startTime s;
          a = (analytics st)\<lparr> totalTimeSpent := totalTime,
                 averageQuestionTime :=
                   (if card (dom (answers s)) > 0
                    then real_of_int totalTime / real (card (dom (answers s))) else 0) \<rparr>
      in st\<lparr> state := s\<lparr> submitted := True, endTime := Some now, timeElapsed := Some totalTime \<rparr>,
             analytics := a, autoSaveTimer := False \<rparr>)"

definition clear :: "int \<Rightarrow> quiz_store \<Rightarrow> quiz_store" where
  "clear created st =
     \<lparr> state = defaultState created, answerHistory = [], stateSnapshots = [],
       currentSnapshotIndex = - 1, analytics = emptyAnalytics, autoSaveTimer = False \<rparr>"

text \<open>Runs of calls: a list of \<^verbatim>\<open>answerQuestion\<close> calls in order, and \<open>n\<close> calls of \<^verbatim>\<open>undoAnswer\<close>.\<close>

fun answerAll ::
  "state_manager_config \<Rightarrow> (int \<times> question_id \<times> option_id list) list \<Rightarrow> quiz_store \<Rightarrow> quiz_store" where
  "answerAll config [] st = st"
| "answerAll config ((now, qid, sel) # calls) st =
     answerAll config calls (answerQuestion config now qid sel st)"

fun undoTimes :: "nat \<Rightarrow> quiz_store \<Rightarrow> quiz_store" where
  "undoTimes 0 st = st"
| "undoTimes (Suc n) st = undoTimes n (snd (undoAnswer st))"

text \<open>
  What \<^verbatim>\<open>undoAnswer\<close> does to the answer map for a history entry: it stores the entry's
  previous selection, or deletes the key when that selection is empty.
\<close>

definition restoreEntry ::
  "answer_history_entry \<Rightarrow> (question_id \<rightharpoonup> option_id list) \<Rightarrow> (question_id \<rightharpoonup> option_id list)" where
  "restoreEntry entry answerMap =
     (if length (previousAnswers entry) > 0
      then answerMap(questionId entry \<mapsto> previousAnswers entry)
      else answerMap(questionId entry := None))"

subsection \<open>Derived stores\<close>

text \<open>
  \<^verbatim>\<open>currentQuestion\<close> returns \<^verbatim>\<open>null\<close> behind its guard and otherwise indexes the
  array; an index below zero reads \<^verbatim>\<open>undefined\<close> (JavaScript does not throw there).
\<close>

datatype 'a js_value = Null | Undefined | Value 'a

definition currentQuestion :: "quiz_state \<Rightarrow> exam option \<Rightarrow> question js_value" where
  "currentQuestion quiz currentExam =
     (case currentExam of
        None \<Rightarrow> Null
      | Some ex \<Rightarrow>
          if currentQuestionIndex quiz \<ge> int (length (questions ex)) then Null
          else if currentQuestionIndex quiz < 0 then Undefined
          else Value (questions ex ! nat (currentQuestionIndex quiz)))"

record quiz_progress =
  answered :: nat
  total :: nat
  progress_percentage :: real

definition quizProgress :: "quiz_state \<Rightarrow> exam option \<Rightarrow> quiz_progress" where
  "quizProgress quiz currentExam =
     (case currentExam of
        None \<Rightarrow> \<lparr> answered = 0, total = 0, progress_percentage = 0 \<rparr>
      | Some ex \<Rightarrow>
          let tot = length (questions ex);
              ans = card (dom (answers quiz))
          in \<lparr> answered = ans, total = tot,
               progress_percentage = (if tot > 0 then (real ans / real tot) * 100 else 0) \<rparr>)"

text \<open>
  \<^verbatim>\<open>navigationItems\<close>: one item per question. \<^verbatim>\<open>isCorrect\<close> stays \<^verbatim>\<open>undefined\<close>
  (\<open>None\<close>) for a question with no entry in the answer map; otherwise both arrays are sorted,
  turned into Sets and compared by size and inclusion. The source sorts the stored arrays in
  place, which changes neither Set; that effect on the session is \<open>sortStoredSelections\<close>
  below, and the items are computed here from the arrays as they stand.
\<close>

record navigation_item =
  questionNumber :: int
  isAnswered :: bool
  isFlagged :: bool
  isActive :: bool
  nav_isCorrect :: "bool option"

definition navigationItem :: "quiz_state \<Rightarrow> question \<Rightarrow> nat \<Rightarrow> navigation_item" where
  "navigationItem quiz q index =
     (let answeredNow = (answers quiz (q_id q) \<noteq> None);
          userAnswers = selectionOf (answers quiz) (q_id q);
          userAnswersSet = set (sort userAnswers);
          correctAnswersSet = set (sort (correctAnswers q))
      in \<lparr> questionNumber = int index + 1,
           isAnswered = answeredNow,
           isFlagged = (q_id q \<in> flaggedQuestions quiz),
           isActive = (int index = currentQuestionIndex quiz),
           nav_isCorrect =
             (if answeredNow
              then Some (card userAnswersSet = card correctAnswersSet \<and>
                         (\<forall>answer \<in> userAnswersSet. answer \<in> correctAnswersSet))
              else None) \<rparr>)"

definition navigationItems :: "quiz_state \<Rightarrow> exam option \<Rightarrow> navigation_item list" where
  "navigationItems quiz currentExam =
     (case currentExam of
        None \<Rightarrow> []
      | Some ex \<Rightarrow> map (\<lambda>(index, q). navigationItem quiz q index) (enumerate 0 (questions ex)))"

text \<open>
  The side effect of \<^verbatim>\<open>navigationItems\<close> on the session: \<^verbatim>\<open>userAnswers.sort()\<close> sorts, in
  place, the stored selection of every question of the exam that has an entry in the answer
  map (and \<^verbatim>\<open>correctAnswers.sort()\<close> the correct answers of that question). Only the order
  inside a selection changes; a selection of one id is left as it is.
\<close>

definition sortStoredSelections :: "quiz_state \<Rightarrow> exam option \<Rightarrow> quiz_state" where
  "sortStoredSelections quiz currentExam =
     (case currentExam of
        None \<Rightarrow> quiz
      | Some ex \<Rightarrow>
          quiz\<lparr> answers := (\<lambda>qid. if qid \<in> set (map q_id (questions ex))
                                  then map_option sort (answers quiz qid)
                                  else answers quiz qid) \<rparr>)"

section \<open>Scoring (QuizScorer)\<close>

text \<open>
  \<^verbatim>\<open>isAnswerCorrect\<close>: an empty selection is incorrect; otherwise copies of both arrays
  are sorted (the default sort orders strings by their code units) and compared by length
  and then position by position.
\<close>

definition isAnswerCorrect :: "question \<Rightarrow> option_id list \<Rightarrow> bool" where
  "isAnswerCorrect q userAnswers =
     (if length userAnswers = 0 then False
      else
        let sortedUserAnswers = sort userAnswers;
            sortedCorrectAnswers = sort (correctAnswers q)
        in if length sortedUserAnswers \<noteq> length sortedCorrectAnswers then False
           else list_all (\<lambda>(index, answer). answer = sortedCorrectAnswers ! index)
                  (enumerate 0 sortedUserAnswers))"

record question_result =
  qr_questionId :: question_id
  qr_questionNumber :: int
  qr_questionText :: string
  qr_type :: question_type
  userAnswers :: "option_id list"
  qr_correctAnswers :: "option_id list"
  isCorrect :: bool
  qr_explanation :: "string option"
  qr_options :: "answer_option list"

record quiz_result =
  r_examId :: string
  examTitle :: string
  score :: nat
  percentage :: real
  totalQuestions :: nat
  r_correctAnswers :: nat
  incorrectAnswers :: nat
  skippedAnswers :: nat
  r_timeElapsed :: int
  r_startTime :: int
  r_endTime :: int
  questionResults :: "question_result list"

text \<open>
  The body of the \<^verbatim>\<open>questions.forEach\<close> loop of \<^verbatim>\<open>calculateResult\<close>, on the loop's
  variables: the results so far and the three counters.
\<close>

type_synonym score_acc = "question_result list \<times> nat \<times> nat \<times> nat"

definition questionResultOf :: "(question_id \<rightharpoonup> option_id list) \<Rightarrow> question \<Rightarrow> question_result" where
  "questionResultOf answerMap q =
     \<lparr> qr_questionId = q_id q, qr_questionNumber = q_number q, qr_questionText = q_text q,
       qr_type = q_type q, userAnswers = selectionOf answerMap (q_id q),
       qr_correctAnswers = correctAnswers q,
       isCorrect = isAnswerCorrect q (selectionOf answerMap (q_id q)),
       qr_explanation = explanation q, qr_options = q_options q \<rparr>"

definition scoreQuestion ::
  "(question_id \<rightharpoonup> option_id list) \<Rightarrow> score_acc \<Rightarrow> question \<Rightarrow> score_acc" where
  "scoreQuestion answerMap acc q =
     (case acc of (results, correctCount, incorrectCount, skippedCount) \<Rightarrow>
        let questionResult = questionResultOf answerMap q
        in if length (userAnswers questionResult) = 0
           then (results @ [questionResult], correctCount, incorrectCount, skippedCount + 1)
           else if isCorrect questionResult
           then (results @ [questionResult], correctCount + 1, incorrectCount, skippedCount)
           else (results @ [questionResult], correctCount, incorrectCount + 1, skippedCount))"

definition calculateResult ::
  "string \<Rightarrow> string \<Rightarrow> question list \<Rightarrow> (question_id \<rightharpoonup> option_id list) \<Rightarrow> int \<Rightarrow> int \<Rightarrow> quiz_result" where
  "calculateResult eid etitle qs answerMap started ended =
     (case foldl (scoreQuestion answerMap) ([], 0, 0, 0) qs of
        (results, correctCount, incorrectCount, skippedCount) \<Rightarrow>
          let totalCount = length qs;
              pct = (if totalCount > 0 then (real correctCount / real totalCount) * 100 else 0)
          in \<lparr> r_examId = eid, examTitle = etitle, score = correctCount, percentage = pct,
               totalQuestions = totalCount, r_correctAnswers = correctCount,
               incorrectAnswers = incorrectCount, skippedAnswers = skippedCount,
               r_timeElapsed = ended - started, r_startTime = started, r_endTime = ended,
               questionResults = results \<rparr>)"

section \<open>The storage manager (src/lib/utils/storage.ts)\<close>

text \<open>
  The browser's \<^verbatim>\<open>localStorage\<close>, as far as the manager depends on it: the stored pairs
  in key order, the quota (in characters of keys plus values, the unit in which
  \<^verbatim>\<open>getStorageInfo\<close> counts), and whether access is blocked altogether. A blocked store
  throws a SecurityError on every access; \<^verbatim>\<open>setItem\<close> throws a QuotaExceededError, and
  leaves the store as it was, when the pairs after the write would exceed the quota.
\<close>

record js_exception =
  exn_name :: string
  exn_message :: string

record local_storage =
  items :: "(string \<times> string) list"
  capacity :: nat
  blocked :: bool

definition securityError :: js_exception where
  "securityError = \<lparr> exn_name = ''SecurityError'', exn_message = ''The operation is insecure.'' \<rparr>"

definition quotaExceededError :: js_exception where
  "quotaExceededError =
     \<lparr> exn_name = ''QuotaExceededError'', exn_message = ''The quota has been exceeded.'' \<rparr>"

definition usedChars :: "(string \<times> string) list \<Rightarrow> nat" where
  "usedChars kvs = sum_list (map (\<lambda>(k, v). length v + length k) kvs)"

definition getItem :: "local_storage \<Rightarrow> string \<Rightarrow> js_exception + string option" where
  "getItem ls key = (if blocked ls then Inl securityError else Inr (map_of (items ls) key))"

definition setItem :: "local_storage \<Rightarrow> string \<Rightarrow> string \<Rightarrow> js_exception + local_storage" where
  "setItem ls key v =
     (if blocked ls then Inl securityError
      else if usedChars (AList.update key v (items ls)) > capacity ls then Inl quotaExceededError
      else Inr (ls\<lparr> items := AList.update key v (items ls) \<rparr>))"

definition removeItem :: "local_storage \<Rightarrow> string \<Rightarrow> js_exception + local_storage" where
  "removeItem ls key =
     (if blocked ls then Inl securityError
      else Inr (ls\<lparr> items := AList.delete key (items ls) \<rparr>))"

datatype storage_error_type = quota_exceeded | corrupted_data | network_error | permission_denied

record storage_error =
  err_type :: storage_error_type
  err_message :: string
  err_timestamp :: int
  recoverable :: bool

text \<open>
  The state the static class works on: the \<^verbatim>\<open>browser\<close> flag, localStorage, and the
  errors handed to the registered callbacks so far, in order.
\<close>

record storage_manager =
  browser :: bool
  storage :: local_storage
  emitted :: "storage_error list"

definition BACKUP_SUFFIX :: string where
  "BACKUP_SUFFIX = ''_backup''"

definition MAX_STORAGE_SIZE :: nat where
  "MAX_STORAGE_SIZE = 5 * 1024 * 1024"

definition WARNING_THRESHOLD :: real where
  "WARNING_THRESHOLD = 8 / 10"

definition emitError :: "storage_error \<Rightarrow> storage_manager \<Rightarrow> storage_manager" where
  "emitError e sm = sm\<lparr> emitted := emitted sm @ [e] \<rparr>"

definition createBackup :: "string \<Rightarrow> storage_manager \<Rightarrow> bool \<times> storage_manager" where
  "createBackup key sm =
     (if \<not> browser sm then (False, sm)
      else case getItem (storage sm) key of
        Inl error \<Rightarrow> (False, sm)
      | Inr None \<Rightarrow> (False, sm)
      | Inr (Some data) \<Rightarrow>
          if data = [] then (False, sm)
          else (case setItem (storage sm) (key @ BACKUP_SUFFIX) data of
                  Inl error \<Rightarrow> (False, sm)
                | Inr ls \<Rightarrow> (True, sm\<lparr> storage := ls \<rparr>)))"

definition restoreFromBackup :: "string \<Rightarrow> storage_manager \<Rightarrow> bool \<times> storage_manager" where
  "restoreFromBackup key sm =
     (if \<not> browser sm then (False, sm)
      else case getItem (storage sm) (key @ BACKUP_SUFFIX) of
        Inl error \<Rightarrow> (False, sm)
      | Inr None \<Rightarrow> (False, sm)
      | Inr (Some backup) \<Rightarrow>
          if backup = [] then (False, sm)
          else (case setItem (storage sm) key backup of
                  Inl error \<Rightarrow> (False, sm)
                | Inr ls \<Rightarrow>
                    (case removeItem ls (key @ BACKUP_SUFFIX) of
                       Inl error \<Rightarrow> (False, sm\<lparr> storage := ls \<rparr>)
                     | Inr ls' \<Rightarrow> (True, sm\<lparr> storage := ls' \<rparr>))))"

text \<open>
  \<^verbatim>\<open>getStorageInfo\<close>, the two fields the write path reads. A blocked store throws inside
  the \<^verbatim>\<open>try\<close>, and the \<^verbatim>\<open>catch\<close> reports a usage of zero.
\<close>

definition storageUsed :: "storage_manager \<Rightarrow> nat" where
  "storageUsed sm =
     (if \<not> browser sm then 0
      else if blocked (storage sm) then 0
      else usedChars (items (storage sm)))"

definition storagePercentage :: "storage_manager \<Rightarrow> real" where
  "storagePercentage sm =
     (if \<not> browser sm then 0
      else if blocked (storage sm) then 0
      else (real (storageUsed sm) / real MAX_STORAGE_SIZE) * 100)"

text \<open>
  \<^verbatim>\<open>checkAndCleanupStorage\<close>. Above the warning threshold it emits a warning and drops old
  quiz states and results; which ones depends on \<^verbatim>\<open>JSON.parse\<close> of the stored documents,
  so that step is the parameter \<open>cleanup\<close>: the pairs it leaves, and whether it ran to its
  end (\<open>False\<close> when it threw). The warning's message, which spells out the rounded
  percentage, is abridged.
\<close>

type_synonym cleanup_step = "(string \<times> string) list \<Rightarrow> (string \<times> string) list \<times> bool"

definition checkAndCleanupStorage ::
  "cleanup_step \<Rightarrow> int \<Rightarrow> storage_manager \<Rightarrow> bool \<times> storage_manager" where
  "checkAndCleanupStorage cleanup now sm =
     (if \<not> browser sm then (True, sm)
      else if storagePercentage sm \<ge> WARNING_THRESHOLD * 100
      then
        let sm1 = emitError \<lparr> err_type = quota_exceeded,
                    err_message = ''Storage usage is high. Some old data will be cleaned up.'',
                    err_timestamp = now, recoverable = True \<rparr> sm
        in (case cleanup (items (storage sm1)) of
              (kvs, completed) \<Rightarrow>
                (completed, sm1\<lparr> storage := (storage sm1)\<lparr> items := kvs \<rparr> \<rparr>))
      else (True, sm))"

text \<open>
  \<^verbatim>\<open>safeSetItem\<close>. The result of \<^verbatim>\<open>createBackup\<close> is dropped. In the \<^verbatim>\<open>catch\<close>, the
  error type is \<^verbatim>\<open>quota_exceeded\<close> for an error named QuotaExceededError and
  \<^verbatim>\<open>permission_denied\<close> for every other one.
\<close>

definition safeSetItem ::
  "cleanup_step \<Rightarrow> int \<Rightarrow> string \<Rightarrow> string \<Rightarrow> storage_manager \<Rightarrow> bool \<times> storage_manager" where
  "safeSetItem cleanup now key v sm =
     (if \<not> browser sm then (False, sm)
      else case checkAndCleanupStorage cleanup now sm of
        (False, sm1) \<Rightarrow>
          (False, emitError \<lparr> err_type = quota_exceeded,
                     err_message = ''Storage cleanup failed, cannot save data'',
                     err_timestamp = now, recoverable = False \<rparr> sm1)
      | (True, sm1) \<Rightarrow>
          let sm2 = snd (createBackup key sm1)
          in (case setItem (storage sm2) key v of
                Inr ls \<Rightarrow> (True, sm2\<lparr> storage := ls \<rparr>)
              | Inl error \<Rightarrow>
                  let errorType = (if exn_name error = ''QuotaExceededError'' then quota_exceeded
                                   else permission_denied);
                      sm3 = emitError \<lparr> err_type = errorType,
                              err_message = ''Failed to save '' @ key @ '': '' @ exn_message error,
                              err_timestamp = now,
                              recoverable = (errorType = quota_exceeded) \<rparr> sm2
                  in (False, snd (restoreFromBackup key sm3))))"

definition safeGetItem :: "int \<Rightarrow> string \<Rightarrow> storage_manager \<Rightarrow> string option \<times> storage_manager" where
  "safeGetItem now key sm =
     (if \<not> browser sm then (None, sm)
      else case getItem (storage sm) key of
        Inr found \<Rightarrow> (found, sm)
      | Inl error \<Rightarrow>
          let sm1 = emitError \<lparr> err_type = corrupted_data,
                      err_message = ''Failed to read '' @ key @ '': '' @ exn_message error,
                      err_timestamp = now, recoverable = False \<rparr> sm
          in (case getItem (storage sm1) (key @ BACKUP_SUFFIX) of
                Inr (Some backup) \<Rightarrow> if backup = [] then (None, sm1) else (Some backup, sm1)
              | Inr None \<Rightarrow> (None, sm1)
              | Inl backupError \<Rightarrow> (None, sm1)))"

section \<open>The offline queue (createOfflineStore)\<close>

text \<open>
  A pending action's \<^verbatim>\<open>type\<close> is one of four strings in TypeScript; a queue read back
  from localStorage can hold any other string, which \<^verbatim>\<open>processPendingAction\<close> rejects in
  its \<^verbatim>\<open>default\<close> branch. \<^verbatim>\<open>retryCount\<close> starts at zero and is only ever incremented.
\<close>

datatype action_kind = AnswerAction | FlagAction | NavigationAction | SubmitAction
  | OtherAction string

record pending_action =
  action_id :: string
  action_type :: action_kind
  action_data :: string
  action_timestamp :: int
  retryCount :: nat

record offline_state =
  isOnline :: bool
  pendingActions :: "pending_action list"
  lastSyncTime :: "int option"

text \<open>
  The closure of \<^verbatim>\<open>createOfflineStore\<close>: the store's state, the \<^verbatim>\<open>retryTimeouts\<close> map
  from action id to timer handle, the timers \<^verbatim>\<open>setTimeout\<close> has armed and that have not
  fired (handle, delay in milliseconds, the action the callback captured), the next handle,
  and the lines written with \<^verbatim>\<open>console.warn\<close>.
\<close>

record retry_timer =
  timer_handle :: nat
  timer_delay :: int
  timer_action :: pending_action

record offline_store =
  offline :: offline_state
  retryTimeouts :: "string \<rightharpoonup> nat"
  armedTimers :: "retry_timer list"
  nextHandle :: nat
  consoleWarnings :: "string list"

definition processPendingAction :: "pending_action \<Rightarrow> bool" where
  "processPendingAction action =
     (case action_type action of
        AnswerAction \<Rightarrow> True
      | FlagAction \<Rightarrow> True
      | NavigationAction \<Rightarrow> True
      | SubmitAction \<Rightarrow> True
      | OtherAction other \<Rightarrow> False)"

definition retryDelay :: "nat \<Rightarrow> int" where
  "retryDelay r = min (1000 * 2 ^ r) 30000"

definition scheduleRetry :: "pending_action \<Rightarrow> offline_store \<Rightarrow> offline_store" where
  "scheduleRetry action st =
     (if retryCount action \<ge> 3
      then st\<lparr> consoleWarnings := consoleWarnings st @
                 [''Max retries reached for action: '' @ action_id action] \<rparr>
      else st\<lparr> armedTimers := armedTimers st @
                 [\<lparr> timer_handle = nextHandle st, timer_delay = retryDelay (retryCount action),
                    timer_action = action \<rparr>],
               retryTimeouts := (retryTimeouts st)(action_id action \<mapsto> nextHandle st),
               nextHandle := nextHandle st + 1 \<rparr>)"

text \<open>The callback of the timer armed by \<^verbatim>\<open>scheduleRetry\<close>, run when timer \<open>h\<close> fires.\<close>

definition retryTimerFires :: "nat \<Rightarrow> offline_store \<Rightarrow> offline_store" where
  "retryTimerFires h st =
     (case filter (\<lambda>t. timer_handle t = h) (armedTimers st) of
        [] \<Rightarrow> st
      | t # ts \<Rightarrow>
          let action = timer_action t;
              st1 = st\<lparr> armedTimers := filter (\<lambda>t. timer_handle t \<noteq> h) (armedTimers st) \<rparr>
          in if processPendingAction action
             then st1\<lparr> offline := (offline st1)\<lparr> pendingActions :=
                          filter (\<lambda>a. action_id a \<noteq> action_id action)
                            (pendingActions (offline st1)) \<rparr>,
                        retryTimeouts := (retryTimeouts st1)(action_id action := None) \<rparr>
             else scheduleRetry (action\<lparr> retryCount := retryCount action + 1 \<rparr>)
                    (st1\<lparr> offline := (offline st1)\<lparr> pendingActions :=
                              map (\<lambda>a. if action_id a = action_id action
                                        then a\<lparr> retryCount := retryCount a + 1 \<rparr> else a)
                                (pendingActions (offline st1)) \<rparr> \<rparr>))"

text \<open>
  \<^verbatim>\<open>addPendingAction\<close> with the generated id and the time given; when the store is online
  the first attempt (the \<^verbatim>\<open>setTimeout(..., 0)\<close> callback) runs right after the enqueue.
\<close>

definition addPendingAction ::
  "string \<Rightarrow> int \<Rightarrow> action_kind \<Rightarrow> string \<Rightarrow> offline_store \<Rightarrow> offline_store" where
  "addPendingAction newId now kind payload st =
     (let action = \<lparr> action_id = newId, action_type = kind, action_data = payload,
                      action_timestamp = now, retryCount = 0 \<rparr>;
          st1 = st\<lparr> offline := (offline st)\<lparr> pendingActions :=
                       pendingActions (offline st) @ [action] \<rparr> \<rparr>
      in if isOnline (offline st1)
         then (if processPendingAction action
               then st1\<lparr> offline := (offline st1)\<lparr> pendingActions :=
                            filter (\<lambda>a. action_id a \<noteq> action_id action)
                              (pendingActions (offline st1)) \<rparr> \<rparr>
               else scheduleRetry action st1)
         else st1)"

definition createOfflineStore :: "bool \<Rightarrow> offline_store" where
  "createOfflineStore online =
     \<lparr> offline = \<lparr> isOnline = online, pendingActions = [], lastSyncTime = None \<rparr>,
       retryTimeouts = Map.empty, armedTimers = [], nextHandle = 0, consoleWarnings = [] \<rparr>"

section \<open>Sample data\<close>

definition optionsAD :: "answer_option list" where
  "optionsAD = [\<lparr> opt_id = ''1-A'', opt_text = ''EC2'', opt_letter = ''A'' \<rparr>,
                \<lparr> opt_id = ''1-B'', opt_text = ''S3'', opt_letter = ''B'' \<rparr>,
                \<lparr> opt_id = ''1-C'', opt_text = ''RDS'', opt_letter = ''C'' \<rparr>,
                \<lparr> opt_id = ''1-D'', opt_text = ''Glacier'', opt_letter = ''D'' \<rparr>]"

definition questionBD :: question where
  "questionBD = \<lparr> q_id = ''1'', q_number = 1, q_type = MCMA, q_text = ''Which two store objects?'',
     q_options = optionsAD, correctAnswers = [''1-B'', ''1-D''], explanation = None \<rparr>"

definition questionB :: question where
  "questionB = \<lparr> q_id = ''2'', q_number = 2, q_type = MCQ, q_text = ''Which one stores objects?'',
     q_options = optionsAD, correctAnswers = [''1-B''], explanation = None \<rparr>"

definition questionBB :: question where
  "questionBB = questionB\<lparr> q_id := ''3'', q_number := 3, correctAnswers := [''1-B'', ''1-B''] \<rparr>"

definition sampleExam :: exam where
  "sampleExam = \<lparr> exam_id = ''practice-exam-1'', title = ''Practice Exam 1'', questionCount = 3,
     questions = [questionBD, questionB, questionBB] \<rparr>"

definition activeStore :: quiz_store where
  "activeStore = init 0 None sampleExam ExamMode (createQuizStore 0)"

definition fiftyOneCalls :: "(int \<times> question_id \<times> option_id list) list" where
  "fiftyOneCalls = map (\<lambda>i. (int i, ''1'', [''1-A''])) [0..<51]"

definition answeredStore :: quiz_store where
  "answeredStore = answerQuestion DEFAULT_CONFIG 1000 ''1'' [''1-A''] activeStore"

definition navigatedStore :: quiz_store where
  "navigatedStore = toggleFlag DEFAULT_CONFIG ''2'' (goToQuestion DEFAULT_CONFIG 2000 2 answeredStore)"

text \<open>Answer A, undo, then answer B on the same question; and the first fifty of the calls.\<close>

definition reansweredStore :: quiz_store where
  "reansweredStore =
     answerQuestion DEFAULT_CONFIG 3000 ''1'' [''1-B''] (snd (undoAnswer answeredStore))"

definition fiftyCalls :: "(int \<times> question_id \<times> option_id list) list" where
  "fiftyCalls = take 50 fiftyOneCalls"

definition submittedStore :: quiz_store where
  "submittedStore = submit 60000 activeStore"

text \<open>
  A store with a quota of 40 characters and a cleanup step that drops nothing, after two
  writes to one key; and an offline queue holding one action that no attempt can process.
\<close>

definition smallStore :: storage_manager where
  "smallStore = \<lparr> browser = True,
     storage = \<lparr> items = [], capacity = 40, blocked = False \<rparr>, emitted = [] \<rparr>"

definition noCleanup :: cleanup_step where
  "noCleanup kvs = (kvs, True)"

definition afterTwoWrites :: storage_manager where
  "afterTwoWrites = snd (safeSetItem noCleanup 2 ''quiz_state_e1'' ''s0+a1''
     (snd (safeSetItem noCleanup 1 ''quiz_state_e1'' ''s0'' smallStore)))"

definition failingAction :: pending_action where
  "failingAction = \<lparr> action_id = ''1700000000000-k3x9q2m1z'', action_type = OtherAction ''sync'',
     action_data = ''{}'', action_timestamp = 0, retryCount = 0 \<rparr>"

definition queuedStore :: offline_store where
  "queuedStore = addPendingAction ''1700000000000-k3x9q2m1z'' 0 (OtherAction ''sync'') ''{}''
     (createOfflineStore True)"

definition abandonedStore :: offline_store where
  "abandonedStore = retryTimerFires 2 (retryTimerFires 1 (retryTimerFires 0 queuedStore))"

section \<open>Properties\<close>

subsection \<open>Session operations after submit\<close>

text \<open>
  Claim C1, as amended. None of \<^verbatim>\<open>answerQuestion\<close>, \<^verbatim>\<open>toggleFlag\<close> and
  \<^verbatim>\<open>goToQuestion\<close> reads the \<^verbatim>\<open>submitted\<close> flag. On a submitted session each call still
  takes effect on its own field (the answer map, the flagged set, the current index) and
  leaves every other field of the session, the \<^verbatim>\<open>submitted\<close> flag included, as it was.
\<close>

theorem submitted_session_still_mutable:
  assumes "submitted (state st)"
  shows "state (answerQuestion config now qid sel st) =
           (state st)\<lparr> answers := (if sel \<noteq> [] then (answers (state st))(qid \<mapsto> sel)
                                     else (answers (state st))(qid := None)) \<rparr> \<and>
         state (toggleFlag config qid st) =
           (state st)\<lparr> flaggedQuestions :=
              (if qid \<in> flaggedQuestions (state st) then flaggedQuestions (state st) - {qid}
               else insert qid (flaggedQuestions (state st))) \<rparr> \<and>
         state (goToQuestion config now index st) = (state st)\<lparr> currentQuestionIndex := index \<rparr> \<and>
         submitted (state (answerQuestion config now qid sel st)) \<and>
         submitted (state (toggleFlag config qid st)) \<and>
         submitted (state (goToQuestion config now index st))"
  using assms by (simp add: answerQuestion_def toggleFlag_def goToQuestion_def Let_def)

text \<open>A submitted session, and the same calls on it.\<close>

theorem submitted_session_still_mutable_witness:
  "submitted (state submittedStore) \<and>
   submitted (state (answerQuestion DEFAULT_CONFIG 61000 ''1'' [''1-A''] submittedStore)) \<and>
   state (goToQuestion DEFAULT_CONFIG 61000 2 submittedStore) =
     (state submittedStore)\<lparr> currentQuestionIndex := 2 \<rparr>"
proof -
  have sub: "submitted (state submittedStore)"
    by (simp add: submittedStore_def submit_def Let_def)
  show ?thesis
    using submitted_session_still_mutable [OF sub, of DEFAULT_CONFIG 61000 "''1''" "[''1-A'']" 2] sub
    by blast
qed

text \<open>
  The claim as stated fails: after \<^verbatim>\<open>submit\<close>, one call of each operation changes the
  answer map, the flagged set and the current index.
\<close>

theorem submitted_session_frozen_counterexample:
  "submitted (state submittedStore) \<and>
   answers (state submittedStore) ''1'' = None \<and>
   answers (state (answerQuestion DEFAULT_CONFIG 61000 ''1'' [''1-A''] submittedStore)) ''1'' =
     Some [''1-A''] \<and>
   ''1'' \<notin> flaggedQuestions (state submittedStore) \<and>
   ''1'' \<in> flaggedQuestions (state (toggleFlag DEFAULT_CONFIG ''1'' submittedStore)) \<and>
   currentQuestionIndex (state submittedStore) = 0 \<and>
   currentQuestionIndex (state (goToQuestion DEFAULT_CONFIG 61000 2 submittedStore)) = 2"
  by (simp add: submittedStore_def submit_def activeStore_def init_def answerQuestion_def
      toggleFlag_def goToQuestion_def Let_def)

subsection \<open>Navigation bounds\<close>

text \<open>
  Claim C2, as amended. \<^verbatim>\<open>goToQuestion(i)\<close> stores \<open>i\<close> as the current index, whatever
  \<open>i\<close> is. \<^verbatim>\<open>previousQuestion\<close> keeps an index that is within \<open>[0, n)\<close> within it, and
  \<^verbatim>\<open>nextQuestion\<close> does so whenever the current question is not the last one.
\<close>

theorem navigation_index_bounds:
  "currentQuestionIndex (state (goToQuestion config now index st)) = index \<and>
   (0 \<le> currentQuestionIndex (state st) \<and> currentQuestionIndex (state st) < n \<longrightarrow>
      0 \<le> currentQuestionIndex (state (previousQuestion config now st)) \<and>
      currentQuestionIndex (state (previousQuestion config now st)) < n) \<and>
   (0 \<le> currentQuestionIndex (state st) \<and> currentQuestionIndex (state st) + 1 < n \<longrightarrow>
      0 \<le> currentQuestionIndex (state (nextQuestion config now st)) \<and>
      currentQuestionIndex (state (nextQuestion config now st)) < n)"
  by (auto simp: goToQuestion_def previousQuestion_def nextQuestion_def Let_def)

theorem navigation_index_bounds_witness:
  "currentQuestionIndex (state (goToQuestion DEFAULT_CONFIG 5 2 activeStore)) = 2 \<and>
   currentQuestionIndex (state (previousQuestion DEFAULT_CONFIG 5 activeStore)) = 0 \<and>
   currentQuestionIndex (state (nextQuestion DEFAULT_CONFIG 5 activeStore)) = 1"
proof -
  have idx: "currentQuestionIndex (state activeStore) = 0"
    by (simp add: activeStore_def init_def Let_def)
  have prev: "currentQuestionIndex (state (previousQuestion DEFAULT_CONFIG 5 activeStore)) = 0"
    using navigation_index_bounds [of DEFAULT_CONFIG 5 2 activeStore 1] idx by simp
  have nxt: "currentQuestionIndex (state (nextQuestion DEFAULT_CONFIG 5 activeStore)) = 1"
    using navigation_index_bounds [of DEFAULT_CONFIG 5 2 activeStore 2] idx
    by (simp add: nextQuestion_def Let_def)
  show ?thesis
    using navigation_index_bounds [of DEFAULT_CONFIG 5 2 activeStore 3] prev nxt by blast
qed

text \<open>
  The claim as stated fails on an exam of three questions: \<^verbatim>\<open>goToQuestion(7)\<close> and
  \<^verbatim>\<open>goToQuestion(-1)\<close> are stored as they are, and three calls of \<^verbatim>\<open>nextQuestion\<close>
  from the first question reach index 3.
\<close>

theorem goToQuestion_out_of_bounds_counterexample:
  "length (questions sampleExam) = 3 \<and>
   currentQuestionIndex (state (goToQuestion DEFAULT_CONFIG 5 7 activeStore)) = 7 \<and>
   currentQuestionIndex (state (goToQuestion DEFAULT_CONFIG 5 (- 1) activeStore)) = - 1 \<and>
   currentQuestionIndex (state (nextQuestion DEFAULT_CONFIG 7
     (nextQuestion DEFAULT_CONFIG 6 (nextQuestion DEFAULT_CONFIG 5 activeStore)))) = 3"
  by (simp add: sampleExam_def activeStore_def init_def goToQuestion_def nextQuestion_def Let_def)

subsection \<open>Undo and redo\<close>

lemma undoAnswer_step:
  assumes "answerHistory st \<noteq> []" and "0 < currentSnapshotIndex st"
  shows "undoAnswer st =
     (True, st\<lparr> state := (state st)\<lparr> answers :=
                    restoreEntry (last (answerHistory st)) (answers (state st)) \<rparr>,
               answerHistory := butlast (answerHistory st),
               currentSnapshotIndex := currentSnapshotIndex st - 1 \<rparr>)"
  using assms by (simp add: undoAnswer_def restoreEntry_def Let_def)

lemma undoTimes_closed:
  assumes "int n \<le> currentSnapshotIndex st" and "answerHistory st = P @ E" and "length E = n"
  shows "answers (state (undoTimes n st)) = foldr restoreEntry E (answers (state st)) \<and>
         answerHistory (undoTimes n st) = P \<and>
         currentSnapshotIndex (undoTimes n st) = currentSnapshotIndex st - int n"
  using assms
proof (induction n arbitrary: st E)
  case 0
  then show ?case by simp
next
  case (Suc n)
  from Suc.prems(3) obtain E' e where E: "E = E' @ [e]" and len: "length E' = n"
    by (cases E rule: rev_cases) auto
  let ?st' = "st\<lparr> state := (state st)\<lparr> answers := restoreEntry e (answers (state st)) \<rparr>,
                  answerHistory := P @ E',
                  currentSnapshotIndex := currentSnapshotIndex st - 1 \<rparr>"
  have hist: "answerHistory st \<noteq> []" "last (answerHistory st) = e"
    "butlast (answerHistory st) = P @ E'"
    using Suc.prems(2) E by (simp_all add: butlast_append)
  have pos: "0 < currentSnapshotIndex st" using Suc.prems(1) by simp
  have step: "snd (undoAnswer st) = ?st'"
    using undoAnswer_step [OF hist(1) pos] hist by simp
  have "answers (state (undoTimes n ?st')) = foldr restoreEntry E' (answers (state ?st')) \<and>
        answerHistory (undoTimes n ?st') = P \<and>
        currentSnapshotIndex (undoTimes n ?st') = currentSnapshotIndex ?st' - int n"
    using Suc.prems(1) len by (intro Suc.IH) simp_all
  then show ?case using step E by simp
qed

lemma js_slice_from_keeps:
  assumes "int (length E) + 1 \<le> m"
  shows "\<exists>P'. js_slice_from (- m + 1) (P @ E) = P' @ E"
proof -
  define k where "k = (if - m + 1 < 0 then max (int (length (P @ E)) + (- m + 1)) 0
                       else min (- m + 1) (int (length (P @ E))))"
  have "nat k \<le> length P" using assms by (auto simp: k_def)
  then have "drop (nat k) (P @ E) = drop (nat k) P @ E" by simp
  then show ?thesis by (auto simp: js_slice_from_def Let_def k_def)
qed

lemma answerAll_snoc:
  "answerAll config (calls @ [(now, qid, sel)]) st = answerQuestion config now qid sel (answerAll config calls st)"
  by (induction config calls st rule: answerAll.induct) simp_all

lemma restoreEntry_inverse:
  assumes "[] \<notin> ran a"
  shows "restoreEntry \<lparr> questionId = qid, previousAnswers = selectionOf a qid, newAnswers = sel,
                         entry_timestamp = now \<rparr>
           (if length sel > 0 then a(qid \<mapsto> sel) else a(qid := None)) = a"
proof (cases "a qid")
  case None
  then show ?thesis by (auto simp: restoreEntry_def selectionOf_def)
next
  case (Some v)
  then have "v \<noteq> []" using assms by (auto simp: ran_def)
  then show ?thesis using Some by (auto simp: restoreEntry_def selectionOf_def)
qed

lemma answerQuestion_no_empty:
  "[] \<notin> ran (answers (state st)) \<Longrightarrow> [] \<notin> ran (answers (state (answerQuestion config now qid sel st)))"
  by (auto simp: answerQuestion_def Let_def ran_def split: if_splits)

lemma answerAll_history:
  assumes "int (length calls) \<le> maxHistorySize config" and "[] \<notin> ran (answers (state st))"
  shows "\<exists>P E. answerHistory (answerAll config calls st) = P @ E \<and> length E = length calls \<and>
           foldr restoreEntry E (answers (state (answerAll config calls st))) = answers (state st) \<and>
           currentSnapshotIndex (answerAll config calls st) =
             currentSnapshotIndex st + int (length calls) \<and>
           [] \<notin> ran (answers (state (answerAll config calls st)))"
  using assms
proof (induction calls rule: rev_induct)
  case Nil
  then show ?case by simp
next
  case (snoc c calls)
  obtain now qid sel where c: "c = (now, qid, sel)" by (cases c) auto
  let ?s1 = "answerAll config calls st"
  from snoc obtain P E where ih:
    "answerHistory ?s1 = P @ E" "length E = length calls"
    "foldr restoreEntry E (answers (state ?s1)) = answers (state st)"
    "currentSnapshotIndex ?s1 = currentSnapshotIndex st + int (length calls)"
    "[] \<notin> ran (answers (state ?s1))"
    by auto
  have "int (length E) + 1 \<le> maxHistorySize config" using snoc.prems(1) ih(2) by simp
  then obtain P' where keep: "js_slice_from (- maxHistorySize config + 1) (P @ E) = P' @ E"
    using js_slice_from_keeps by blast
  let ?e = "\<lparr> questionId = qid, previousAnswers = selectionOf (answers (state ?s1)) qid,
              newAnswers = sel, entry_timestamp = now \<rparr>"
  let ?s2 = "answerQuestion config now qid sel ?s1"
  have hist: "answerHistory ?s2 = P' @ (E @ [?e])"
    using keep ih(1) by (simp add: answerQuestion_def Let_def)
  have ans: "answers (state ?s2) =
      (if length sel > 0 then (answers (state ?s1))(qid \<mapsto> sel) else (answers (state ?s1))(qid := None))"
    by (simp add: answerQuestion_def Let_def)
  have undone: "restoreEntry ?e (answers (state ?s2)) = answers (state ?s1)"
    unfolding ans using restoreEntry_inverse [OF ih(5)] by simp
  have "foldr restoreEntry (E @ [?e]) (answers (state ?s2)) = answers (state st)"
    using undone ih(3) by simp
  moreover have "currentSnapshotIndex ?s2 = currentSnapshotIndex st + int (length (calls @ [c]))"
    using ih(4) by (simp add: answerQuestion_def Let_def)
  moreover have "[] \<notin> ran (answers (state ?s2))" using ih(5) by (rule answerQuestion_no_empty)
  moreover have "length (E @ [?e]) = length (calls @ [c])" using ih(2) by simp
  ultimately show ?case using hist unfolding c answerAll_snoc by blast
qed

text \<open>
  Claim C3, as amended. On a session that \<^verbatim>\<open>init\<close> has started (the snapshot cursor is
  not negative) and whose answer map stores no empty selection (\<^verbatim>\<open>answerQuestion\<close> never
  stores one), a run of \<open>n\<close> calls of \<^verbatim>\<open>answerQuestion\<close> followed by \<open>n\<close> calls of
  \<^verbatim>\<open>undoAnswer\<close> brings the answer map back to what it was before the first call, provided
  \<open>n\<close> is at most \<^verbatim>\<open>maxHistorySize\<close>, the number of history entries the store keeps.
\<close>

theorem undo_inverts_answers:
  assumes "0 \<le> currentSnapshotIndex st"
    and "int (length calls) \<le> maxHistorySize config"
    and "[] \<notin> ran (answers (state st))"
  shows "answers (state (undoTimes (length calls) (answerAll config calls st))) = answers (state st)"
proof -
  from answerAll_history [OF assms(2,3)] obtain P E where h:
    "answerHistory (answerAll config calls st) = P @ E" "length E = length calls"
    "foldr restoreEntry E (answers (state (answerAll config calls st))) = answers (state st)"
    "currentSnapshotIndex (answerAll config calls st) = currentSnapshotIndex st + int (length calls)"
    by blast
  have "int (length calls) \<le> currentSnapshotIndex (answerAll config calls st)"
    using h(4) assms(1) by simp
  from undoTimes_closed [OF this h(1) h(2)] show ?thesis using h(3) by simp
qed

theorem undo_inverts_answers_witness:
  "answers (state (undoTimes 2 (answerAll DEFAULT_CONFIG
      [(1, ''1'', [''1-A'']), (2, ''1'', [''1-B''])] activeStore))) = answers (state activeStore)"
proof -
  have "0 \<le> currentSnapshotIndex activeStore"
    by (simp add: activeStore_def init_def Let_def)
  moreover have "int (length [(1::int, ''1'', [''1-A'']), (2, ''1'', [''1-B''])]) \<le> maxHistorySize DEFAULT_CONFIG"
    by (simp add: DEFAULT_CONFIG_def)
  moreover have "[] \<notin> ran (answers (state activeStore))"
    by (simp add: activeStore_def init_def Let_def)
  ultimately show ?thesis
    using undo_inverts_answers [of activeStore "[(1, ''1'', [''1-A'']), (2, ''1'', [''1-B''])]" DEFAULT_CONFIG]
    by (simp add: numeral_2_eq_2)
qed

text \<open>
  The claim as stated fails beyond the history bound: with the default configuration (50
  entries), after 51 answers to question 1 on a fresh session the 51st \<^verbatim>\<open>undoAnswer\<close>
  finds the history empty, and the first answer stays in the map.
\<close>

theorem undo_fifty_one_counterexample:
  "length fiftyOneCalls = 51 \<and>
   answers (state activeStore) ''1'' = None \<and>
   answers (state (undoTimes 51 (answerAll DEFAULT_CONFIG fiftyOneCalls activeStore))) ''1''
     = Some [''1-A'']"
  by code_simp

text \<open>
  After \<^verbatim>\<open>init\<close> and a run of fewer than \<^verbatim>\<open>maxHistorySize\<close> calls of \<^verbatim>\<open>answerQuestion\<close>, the
  cursor points at the newest snapshot and that snapshot is a copy of the session state.
\<close>

lemma js_slice_from_all:
  assumes "int (length xs) + 1 \<le> m"
  shows "js_slice_from (- m + 1) xs = xs"
  using assms by (auto simp: js_slice_from_def Let_def)

lemma answerAll_in_step:
  assumes "int (length calls) < maxHistorySize config"
  shows "currentSnapshotIndex (answerAll config calls (init now saved ex md st0)) = int (length calls) \<and>
         length (stateSnapshots (answerAll config calls (init now saved ex md st0))) = Suc (length calls) \<and>
         snap_state (last (stateSnapshots (answerAll config calls (init now saved ex md st0)))) =
           state (answerAll config calls (init now saved ex md st0)) \<and>
         (calls \<noteq> [] \<longrightarrow> answerHistory (answerAll config calls (init now saved ex md st0)) \<noteq> [])"
  using assms
proof (induction calls rule: rev_induct)
  case Nil
  then show ?case
    by (simp add: init_def createSnapshot_def Let_def split: option.splits prod.splits)
next
  case (snoc c calls)
  obtain t qid sel where c: "c = (t, qid, sel)" by (cases c) auto
  let ?s1 = "answerAll config calls (init now saved ex md st0)"
  have ih: "currentSnapshotIndex ?s1 = int (length calls)"
    "length (stateSnapshots ?s1) = Suc (length calls)"
    using snoc by simp_all
  have "int (length (stateSnapshots ?s1)) + 1 \<le> maxHistorySize config"
    using snoc.prems ih(2) by simp
  then have keep: "js_slice_from (- maxHistorySize config + 1) (stateSnapshots ?s1) = stateSnapshots ?s1"
    by (rule js_slice_from_all)
  show ?case
    unfolding c answerAll_snoc using ih keep
    by (simp add: answerQuestion_def createSnapshot_def Let_def)
qed

lemma redo_after_undo_applies:
  assumes "calls \<noteq> []" and "int (length calls) < maxHistorySize config"
  shows "answerHistory (answerAll config calls (init now saved ex md st0)) \<noteq> [] \<and>
         0 < currentSnapshotIndex (answerAll config calls (init now saved ex md st0)) \<and>
         currentSnapshotIndex (answerAll config calls (init now saved ex md st0)) <
           int (length (stateSnapshots (answerAll config calls (init now saved ex md st0)))) \<and>
         snap_state (stateSnapshots (answerAll config calls (init now saved ex md st0)) !
             nat (currentSnapshotIndex (answerAll config calls (init now saved ex md st0)))) =
           state (answerAll config calls (init now saved ex md st0))"
proof -
  let ?st = "answerAll config calls (init now saved ex md st0)"
  note s = answerAll_in_step [OF assms(2), of now saved ex md st0]
  have ne: "stateSnapshots ?st \<noteq> []" using s by auto
  have "stateSnapshots ?st ! nat (currentSnapshotIndex ?st) = last (stateSnapshots ?st)"
    using s ne by (simp add: last_conv_nth)
  then show ?thesis using s assms(1) by simp
qed

text \<open>
  When \<^verbatim>\<open>undoAnswer\<close> succeeds and the snapshot at the cursor is a copy of the session
  state, the \<^verbatim>\<open>redoAnswer\<close> that follows restores that state and the cursor; so it does
  after \<^verbatim>\<open>init\<close> and a run of answers shorter than \<^verbatim>\<open>maxHistorySize\<close>.
\<close>

lemma redo_after_undo:
  assumes "answerHistory st \<noteq> []"
    and "0 < currentSnapshotIndex st"
    and "currentSnapshotIndex st < int (length (stateSnapshots st))"
    and "snap_state (stateSnapshots st ! nat (currentSnapshotIndex st)) = state st"
  shows "fst (undoAnswer st) \<and>
         redoAnswer (snd (undoAnswer st)) =
           Inr (True, st\<lparr> answerHistory := butlast (answerHistory st) \<rparr>)"
proof -
  have undo: "undoAnswer st =
     (True, st\<lparr> state := (state st)\<lparr> answers :=
                    restoreEntry (last (answerHistory st)) (answers (state st)) \<rparr>,
               answerHistory := butlast (answerHistory st),
               currentSnapshotIndex := currentSnapshotIndex st - 1 \<rparr>)"
    using assms(1,2) by (simp add: undoAnswer_def restoreEntry_def Let_def)
  have restore: "restoreFromSnapshot (stateSnapshots st ! nat (currentSnapshotIndex st)) = state st"
    using assms(4) by (simp add: restoreFromSnapshot_def)
  show ?thesis
    unfolding undo using assms(2,3) restore
    by (simp add: redoAnswer_def Let_def)
qed

lemma redo_after_undo_fresh:
  assumes "calls \<noteq> []" and "int (length calls) < maxHistorySize config"
  shows "fst (undoAnswer (answerAll config calls (init now saved ex md st0))) \<and>
         redoAnswer (snd (undoAnswer (answerAll config calls (init now saved ex md st0)))) =
           Inr (True, (answerAll config calls (init now saved ex md st0))
                        \<lparr> answerHistory :=
                            butlast (answerHistory (answerAll config calls (init now saved ex md st0))) \<rparr>)"
  using redo_after_undo_applies [OF assms, of now saved ex md st0]
  by (intro redo_after_undo) simp_all

text \<open>
  Snapshots are taken by \<^verbatim>\<open>answerQuestion\<close> only: after an answer, a jump to question 2
  and a flag on question 2, undo followed by redo returns the session to index 0 with no
  flag.
\<close>

lemma redo_drops_later_navigation:
  "fst (undoAnswer navigatedStore) \<and>
   redoAnswer (snd (undoAnswer navigatedStore)) =
     Inr (True, answeredStore\<lparr> answerHistory := [], analytics := analytics navigatedStore \<rparr>) \<and>
   currentQuestionIndex (state navigatedStore) = 2 \<and>
   currentQuestionIndex (state answeredStore) = 0 \<and>
   flaggedQuestions (state navigatedStore) = {''2''} \<and>
   flaggedQuestions (state answeredStore) = {}"
  by (simp add: navigatedStore_def answeredStore_def activeStore_def init_def answerQuestion_def
      goToQuestion_def toggleFlag_def trackNavigation_def DEFAULT_CONFIG_def js_slice_from_def
      undoAnswer_def redoAnswer_def createSnapshot_def restoreFromSnapshot_def selectionOf_def
      emptyAnalytics_def Let_def)

text \<open>
  The cursor counts on while the snapshot list is trimmed to 50 entries: after fifty answers
  on a fresh session, \<^verbatim>\<open>undoAnswer\<close> succeeds and the \<^verbatim>\<open>redoAnswer\<close> that follows returns
  false.
\<close>

lemma redo_refused_after_fifty_answers:
  "length fiftyCalls = 50 \<and>
   fst (undoAnswer (answerAll DEFAULT_CONFIG fiftyCalls activeStore)) \<and>
   map_sum id fst (redoAnswer (snd (undoAnswer (answerAll DEFAULT_CONFIG fiftyCalls activeStore))))
     = Inr False"
  by code_simp

text \<open>
  Claim C4 fails on the code: \<^verbatim>\<open>redoAnswer\<close> after \<^verbatim>\<open>undoAnswer\<close> does not always restore
  the state that existed before the undo. \<^verbatim>\<open>answerQuestion\<close> appends its snapshot at the end
  of the list and does not drop the snapshots beyond the cursor. On a fresh session, answer
  A to question 1, undo, answer B to question 1: the session holds B. The undo that follows
  succeeds and empties the map, and the redo returns true and restores the snapshot next to
  the cursor, which is the one taken after answer A: the session holds A, not B.
\<close>

theorem redo_restores_older_answer:
  "answers (state reansweredStore) ''1'' = Some [''1-B''] \<and>
   fst (undoAnswer reansweredStore) \<and>
   answers (state (snd (undoAnswer reansweredStore))) ''1'' = None \<and>
   redoAnswer (snd (undoAnswer reansweredStore)) =
     Inr (True, answeredStore\<lparr> answerHistory := [],
                  stateSnapshots := stateSnapshots reansweredStore \<rparr>) \<and>
   answers (state answeredStore) ''1'' = Some [''1-A'']"
  by (simp add: reansweredStore_def answeredStore_def activeStore_def init_def answerQuestion_def
      DEFAULT_CONFIG_def js_slice_from_def undoAnswer_def redoAnswer_def createSnapshot_def
      restoreFromSnapshot_def selectionOf_def emptyAnalytics_def Let_def)

subsection \<open>Scoring\<close>

lemma scoreQuestion_step:
  "scoreQuestion am (rs, c, i, s) q =
     (rs @ [questionResultOf am q],
      c + (if isAnswerCorrect q (selectionOf am (q_id q)) then 1 else 0),
      i + (if selectionOf am (q_id q) \<noteq> [] \<and> \<not> isAnswerCorrect q (selectionOf am (q_id q))
           then 1 else 0),
      s + (if selectionOf am (q_id q) = [] then 1 else 0))"
  by (simp add: scoreQuestion_def questionResultOf_def isAnswerCorrect_def)






subsection \<open>The correctness check\<close>

lemma every_index_eq:
  "length xs = length ys \<Longrightarrow>
   list_all (\<lambda>(index, answer). answer = ys ! index) (enumerate 0 xs) = (xs = ys)"
  by (auto simp: list_all_length nth_enumerate_eq intro: nth_equalityI)

lemma sort_eq_iff_mset: "(sort xs = sort ys) = (mset xs = mset ys)"
  by (metis mset_sort properties_for_sort sorted_sort)

lemma isAnswerCorrect_iff:
  "isAnswerCorrect q sel = (sel \<noteq> [] \<and> mset sel = mset (correctAnswers q))"
proof (cases "sel = []")
  case True
  then show ?thesis by (simp add: isAnswerCorrect_def)
next
  case False
  show ?thesis
  proof (cases "length sel = length (correctAnswers q)")
    case True
    then show ?thesis using False
      by (auto simp: isAnswerCorrect_def Let_def every_index_eq sort_eq_iff_mset)
  next
    case len: False
    then have "mset sel \<noteq> mset (correctAnswers q)" by (metis size_mset)
    then show ?thesis using False len by (simp add: isAnswerCorrect_def Let_def)
  qed
qed

lemma nav_correct_iff:
  "(card (set xs) = card (set ys) \<and> (\<forall>a. a \<in> set xs \<longrightarrow> a \<in> set ys)) = (set xs = set ys)"
proof -
  have "set xs \<subseteq> set ys \<Longrightarrow> card (set xs) = card (set ys) \<Longrightarrow> set xs = set ys"
    by (simp add: card_subset_eq)
  then show ?thesis by auto
qed

lemma navigationItem_isCorrect:
  "nav_isCorrect (navigationItem quiz q index) =
     (case answers quiz (q_id q) of None \<Rightarrow> None
      | Some sel \<Rightarrow> Some (set sel = set (correctAnswers q)))"
  by (simp add: navigationItem_def Let_def selectionOf_def nav_correct_iff split: option.splits)

lemma navigationItem_after_sort:
  "navigationItem (sortStoredSelections quiz currentExam) q index = navigationItem quiz q index"
  by (cases currentExam)
     (auto simp: sortStoredSelections_def navigationItem_def selectionOf_def Let_def
        split: option.splits)

text \<open>
  Claim C7, as amended. \<^verbatim>\<open>QuizScorer.isAnswerCorrect\<close> returns true exactly when the
  selection is not empty and holds the same ids as the correct answers with the same
  multiplicities; for a non-empty selection and lists without repeated ids that is equality
  as sets. The check of \<^verbatim>\<open>navigationItems\<close>, made for a question with an entry in the
  answer map, is true exactly when the two are equal as sets. Neither gives partial credit.
\<close>

theorem answer_check_exact:
  "isAnswerCorrect q sel = (sel \<noteq> [] \<and> mset sel = mset (correctAnswers q)) \<and>
   (distinct sel \<and> distinct (correctAnswers q) \<and> sel \<noteq> [] \<longrightarrow>
      isAnswerCorrect q sel = (set sel = set (correctAnswers q))) \<and>
   (answers quiz (q_id q) = Some sel \<longrightarrow>
      nav_isCorrect (navigationItem quiz q index) = Some (set sel = set (correctAnswers q))) \<and>
   (answers quiz (q_id q) = None \<longrightarrow> nav_isCorrect (navigationItem quiz q index) = None)"
  by (auto simp: isAnswerCorrect_iff navigationItem_isCorrect set_eq_iff_mset_eq_distinct)

theorem answer_check_exact_witness:
  "\<not> isAnswerCorrect questionBD [''1-B'', ''1-C''] \<and>
   isAnswerCorrect questionBD [''1-D'', ''1-B''] \<and>
   nav_isCorrect (navigationItem ((state activeStore)\<lparr> answers := [''1'' \<mapsto> [''1-B'', ''1-C'']] \<rparr>) questionBD 0)
     = Some False"
  using answer_check_exact [of questionBD "[''1-B'', ''1-C'']"
          "(state activeStore)\<lparr> answers := [''1'' \<mapsto> [''1-B'', ''1-C'']] \<rparr>" 0]
        answer_check_exact [of questionBD "[''1-D'', ''1-B'']"]
  by (simp add: questionBD_def doubleton_eq_iff)

text \<open>
  The claim as stated fails for the scorer: a selection of B against the correct answers
  B, B, and an empty selection against no correct answers, are equal as sets to the correct
  answers and judged incorrect.
\<close>

theorem answer_check_set_counterexample:
  "set [''1-B''] = set (correctAnswers questionBB) \<and> \<not> isAnswerCorrect questionBB [''1-B''] \<and>
   set [] = set (correctAnswers (questionB\<lparr> correctAnswers := [] \<rparr>)) \<and>
   \<not> isAnswerCorrect (questionB\<lparr> correctAnswers := [] \<rparr>) []"
  by (simp add: questionBB_def questionB_def isAnswerCorrect_def)

subsection \<open>Clearing an answer\<close>

text \<open>
  Claim C9. \<^verbatim>\<open>answerQuestion\<close> with an empty selection deletes the question's entry from
  the answer map. The question then no longer counts in the \<^verbatim>\<open>answered\<close> total of
  \<^verbatim>\<open>quizProgress\<close>, \<^verbatim>\<open>submit\<close> leaves the map as it is, and the scoring loop counts the
  question as skipped.
\<close>

theorem answerQuestion_empty_unanswers:
  "answers (state (answerQuestion config now qid [] st)) = (answers (state st))(qid := None) \<and>
   answers (state (answerQuestion config now qid [] st)) qid = None \<and>
   answered (quizProgress (state (answerQuestion config now qid [] st)) (Some ex)) =
     card (dom (answers (state st)) - {qid}) \<and>
   answers (state (submit later (answerQuestion config now qid [] st))) =
     answers (state (answerQuestion config now qid [] st)) \<and>
   (q_id q = qid \<longrightarrow>
      snd (scoreQuestion (answers (state (answerQuestion config now qid [] st))) (rs, c, i, s) q) =
        (c, i, s + 1) \<and>
      skippedAnswers (calculateResult eid etitle [q]
        (answers (state (answerQuestion config now qid [] st))) t0 t1) = 1)"
  by (simp add: answerQuestion_def Let_def quizProgress_def submit_def scoreQuestion_step
      selectionOf_def calculateResult_def isAnswerCorrect_def)

theorem answerQuestion_empty_unanswers_witness:
  "answered (quizProgress (state (answerQuestion DEFAULT_CONFIG 1 ''1'' [''1-B''] activeStore))
      (Some sampleExam)) = 1 \<and>
   answered (quizProgress (state (answerQuestion DEFAULT_CONFIG 2 ''1'' []
      (answerQuestion DEFAULT_CONFIG 1 ''1'' [''1-B''] activeStore))) (Some sampleExam)) = 0 \<and>
   skippedAnswers (calculateResult ''practice-exam-1'' ''Practice Exam 1'' [questionBD]
      (answers (state (answerQuestion DEFAULT_CONFIG 2 ''1'' []
         (answerQuestion DEFAULT_CONFIG 1 ''1'' [''1-B''] activeStore)))) 0 9) = 1"
proof -
  have one: "answered (quizProgress (state (answerQuestion DEFAULT_CONFIG 1 ''1'' [''1-B''] activeStore))
      (Some sampleExam)) = 1"
    by (simp add: answerQuestion_def quizProgress_def activeStore_def init_def Let_def)
  have d: "dom (answers (state (answerQuestion DEFAULT_CONFIG 1 ''1'' [''1-B''] activeStore))) = {''1''}"
    by (simp add: answerQuestion_def activeStore_def init_def Let_def)
  have q: "q_id questionBD = ''1''" by (simp add: questionBD_def)
  note w = answerQuestion_empty_unanswers [of DEFAULT_CONFIG 2 "''1''"
        "answerQuestion DEFAULT_CONFIG 1 ''1'' [''1-B''] activeStore" sampleExam 0 questionBD
        "[]" 0 0 0 "''practice-exam-1''" "''Practice Exam 1''" 0 9]
  have zero: "answered (quizProgress (state (answerQuestion DEFAULT_CONFIG 2 ''1'' []
      (answerQuestion DEFAULT_CONFIG 1 ''1'' [''1-B''] activeStore))) (Some sampleExam)) = 0"
    using w d by simp
  have skipped: "skippedAnswers (calculateResult ''practice-exam-1'' ''Practice Exam 1'' [questionBD]
      (answers (state (answerQuestion DEFAULT_CONFIG 2 ''1'' []
         (answerQuestion DEFAULT_CONFIG 1 ''1'' [''1-B''] activeStore)))) 0 9) = 1"
    using w q by blast
  show ?thesis using one zero skipped by blast
qed

subsection \<open>The current question\<close>

text \<open>
  Claim C10. \<^verbatim>\<open>currentQuestion\<close> yields a value in every state: \<^verbatim>\<open>null\<close> when no exam
  is loaded or the current index is at or beyond the number of questions, the indexed
  question when the index is in range, and \<^verbatim>\<open>undefined\<close> for an index below zero; no
  case throws.
\<close>

theorem currentQuestion_total:
  "currentQuestion quiz None = Null \<and>
   (int (length (questions ex)) \<le> currentQuestionIndex quiz \<longrightarrow>
      currentQuestion quiz (Some ex) = Null) \<and>
   (0 \<le> currentQuestionIndex quiz \<and> currentQuestionIndex quiz < int (length (questions ex)) \<longrightarrow>
      currentQuestion quiz (Some ex) = Value (questions ex ! nat (currentQuestionIndex quiz))) \<and>
   (currentQuestionIndex quiz < 0 \<longrightarrow> currentQuestion quiz (Some ex) = Undefined)"
  by (simp add: currentQuestion_def)

theorem currentQuestion_total_witness:
  "currentQuestion (state (goToQuestion DEFAULT_CONFIG 5 3 activeStore)) (Some sampleExam) = Null \<and>
   currentQuestion (state activeStore) (Some sampleExam) = Value questionBD \<and>
   currentQuestion (state activeStore) None = Null"
  using currentQuestion_total [of "state (goToQuestion DEFAULT_CONFIG 5 3 activeStore)" sampleExam]
        currentQuestion_total [of "state activeStore" sampleExam]
  by (simp add: goToQuestion_def activeStore_def init_def createQuizStore_def sampleExam_def Let_def)

subsection \<open>Safe writes\<close>

lemma createBackup_browser [simp]: "browser (snd (createBackup key sm)) = browser sm"
  by (simp add: createBackup_def split: sum.splits option.splits)

lemma checkAndCleanupStorage_browser:
  "checkAndCleanupStorage cleanup now sm = (ok, sm1) \<Longrightarrow> browser sm1 = browser sm"
  by (auto simp: checkAndCleanupStorage_def emitError_def Let_def split: if_splits prod.splits)

text \<open>A write that succeeds is read back as written.\<close>

lemma write_then_read:
  assumes "safeSetItem cleanup now key v sm = (True, sm')"
  shows "fst (safeGetItem later key sm') = Some v"
proof -
  from assms have b: "browser sm" by (auto simp: safeSetItem_def split: if_splits)
  obtain ok sm1 where c: "checkAndCleanupStorage cleanup now sm = (ok, sm1)" by fastforce
  have b1: "browser sm1" using checkAndCleanupStorage_browser [OF c] b by simp
  let ?sm2 = "snd (createBackup key sm1)"
  from assms b c obtain ls where w: "setItem (storage ?sm2) key v = Inr ls"
    and sm': "sm' = ?sm2\<lparr> storage := ls \<rparr>"
    by (auto simp: safeSetItem_def Let_def split: if_splits bool.splits sum.splits)
  from w have "\<not> blocked ls" "map_of (items ls) key = Some v"
    by (auto simp: setItem_def update_conv' split: if_splits)
  then show ?thesis using sm' b1 by (simp add: safeGetItem_def getItem_def)
qed

lemma backup_key_differs: "key @ BACKUP_SUFFIX \<noteq> key"
  by (simp add: BACKUP_SUFFIX_def)

text \<open>
  A write that fails after \<^verbatim>\<open>createBackup\<close> has stored a fresh backup returns false,
  emits a \<^verbatim>\<open>quota_exceeded\<close> error and leaves the stored value to be read.
\<close>

lemma failed_write_keeps_value:
  assumes "browser sm"
    and "checkAndCleanupStorage cleanup now sm = (True, sm1)"
    and "createBackup key sm1 = (True, sm2)"
    and "setItem (storage sm2) key v = Inl error"
  shows "fst (safeSetItem cleanup now key v sm) = False \<and>
         fst (safeGetItem later key (snd (safeSetItem cleanup now key v sm))) =
           map_of (items (storage sm1)) key \<and>
         map_of (items (storage sm1)) key \<noteq> None \<and>
         map err_type (emitted (snd (safeSetItem cleanup now key v sm))) =
           map err_type (emitted sm1) @ [quota_exceeded]"
proof -
  let ?bk = "key @ BACKUP_SUFFIX"
  have b1: "browser sm1" using checkAndCleanupStorage_browser [OF assms(2)] assms(1) by simp
  from assms(3) b1 obtain data where d:
    "\<not> blocked (storage sm1)" "map_of (items (storage sm1)) key = Some data" "data \<noteq> []"
    "usedChars (AList.update ?bk data (items (storage sm1))) \<le> capacity (storage sm1)"
    "sm2 = sm1\<lparr> storage := (storage sm1)\<lparr> items := AList.update ?bk data (items (storage sm1)) \<rparr> \<rparr>"
    by (auto simp: createBackup_def getItem_def setItem_def
        split: if_splits sum.splits option.splits)
  let ?items2 = "AList.update ?bk data (items (storage sm1))"
  have key2: "map_of ?items2 key = Some data"
    using d(2) backup_key_differs [of key] by (simp add: update_conv')
  have same: "AList.update key data ?items2 = ?items2"
    using key2 by (rule update_triv)
  have err: "error = quotaExceededError"
    using assms(4) d(1,5) by (auto simp: setItem_def split: if_splits)
  let ?e = "\<lparr> err_type = quota_exceeded,
              err_message = ''Failed to save '' @ key @ '': '' @ exn_message quotaExceededError,
              err_timestamp = now, recoverable = True \<rparr>"
  let ?sm3 = "emitError ?e sm2"
  have restore: "snd (restoreFromBackup key ?sm3) =
      ?sm3\<lparr> storage := (storage sm1)\<lparr> items := AList.delete ?bk ?items2 \<rparr> \<rparr>"
    using b1 d(1,3,4) same
    by (simp add: restoreFromBackup_def emitError_def d(5) getItem_def setItem_def removeItem_def
        update_conv')
  have result: "safeSetItem cleanup now key v sm =
      (False, ?sm3\<lparr> storage := (storage sm1)\<lparr> items := AList.delete ?bk ?items2 \<rparr> \<rparr>)"
    using assms(1,2,3,4) restore
    by (simp add: safeSetItem_def Let_def err quotaExceededError_def)
  have read: "map_of (AList.delete ?bk ?items2) key = Some data"
    using key2 backup_key_differs [of key] by (simp add: delete_conv')
  show ?thesis
    unfolding result using read d(1,2) b1
    by (simp add: safeGetItem_def getItem_def emitError_def d(5))
qed

lemma below_threshold [simp]:
  "usedChars kvs < 4194304 \<Longrightarrow>
   \<not> (WARNING_THRESHOLD * 100 \<le> storagePercentage \<lparr> browser = True,
        storage = \<lparr> items = kvs, capacity = c, blocked = False \<rparr>, emitted = es \<rparr>)"
  by (simp add: WARNING_THRESHOLD_def storagePercentage_def storageUsed_def MAX_STORAGE_SIZE_def)

lemma afterTwoWrites_eq:
  "afterTwoWrites = \<lparr> browser = True,
     storage = \<lparr> items = [(''quiz_state_e1'', ''s0+a1''), (''quiz_state_e1_backup'', ''s0'')],
                 capacity = 40, blocked = False \<rparr>, emitted = [] \<rparr>"
  by (simp add: afterTwoWrites_def smallStore_def noCleanup_def safeSetItem_def
      checkAndCleanupStorage_def createBackup_def getItem_def setItem_def usedChars_def
      BACKUP_SUFFIX_def Let_def)

text \<open>
  Claim C6 fails on the code when the backup is stale. After the writes \<open>s0\<close> and
  \<open>s0+a1\<close> the key holds \<open>s0+a1\<close> and its backup \<open>s0\<close>. The third write does not fit the
  quota: \<^verbatim>\<open>createBackup\<close> cannot store the larger backup and its failure is ignored, the
  write itself throws, a \<^verbatim>\<open>quota_exceeded\<close> error is emitted, and \<^verbatim>\<open>restoreFromBackup\<close>
  then puts the older \<open>s0\<close> back under the key. The write returns false, and the following
  read returns \<open>s0\<close>, not the value \<open>s0+a1\<close> stored before the write.
\<close>

theorem failed_write_restores_stale_backup:
  "fst (safeGetItem 3 ''quiz_state_e1'' afterTwoWrites) = Some ''s0+a1'' \<and>
   safeSetItem noCleanup 4 ''quiz_state_e1'' ''s0+a1+a2'' afterTwoWrites =
     (False, \<lparr> browser = True,
        storage = \<lparr> items = [(''quiz_state_e1'', ''s0'')], capacity = 40, blocked = False \<rparr>,
        emitted = [\<lparr> err_type = quota_exceeded,
                     err_message = ''Failed to save quiz_state_e1: The quota has been exceeded.'',
                     err_timestamp = 4, recoverable = True \<rparr>] \<rparr>) \<and>
   fst (safeGetItem 5 ''quiz_state_e1''
      (snd (safeSetItem noCleanup 4 ''quiz_state_e1'' ''s0+a1+a2'' afterTwoWrites))) = Some ''s0''"
  by (simp add: afterTwoWrites_eq noCleanup_def safeSetItem_def safeGetItem_def
      checkAndCleanupStorage_def createBackup_def restoreFromBackup_def getItem_def setItem_def
      removeItem_def usedChars_def emitError_def quotaExceededError_def
      BACKUP_SUFFIX_def Let_def)

subsection \<open>Retries of the offline queue\<close>

text \<open>
  For an action with retry count \<open>r\<close> below 3, \<^verbatim>\<open>scheduleRetry\<close> arms one timer with the
  delay \<open>min (1000 * 2 ^ r) 30000\<close> milliseconds, that is 1, 2 and 4 seconds. From retry
  count 3 on it arms no timer and writes a console warning that names the action. In both
  cases the store's state, the pending queue included, is left as it is, and a retry that
  fails keeps every action in the queue.
\<close>

lemma retry_policy:
  "(retryCount action < 3 \<longrightarrow>
      scheduleRetry action st =
        st\<lparr> armedTimers := armedTimers st @
               [\<lparr> timer_handle = nextHandle st,
                  timer_delay = min (1000 * 2 ^ retryCount action) 30000,
                  timer_action = action \<rparr>],
             retryTimeouts := (retryTimeouts st)(action_id action \<mapsto> nextHandle st),
             nextHandle := nextHandle st + 1 \<rparr> \<and>
      min (1000 * 2 ^ retryCount action) 30000 =
        (if retryCount action = 0 then 1000 else if retryCount action = 1 then 2000 else (4000::int))) \<and>
   (3 \<le> retryCount action \<longrightarrow>
      scheduleRetry action st =
        st\<lparr> consoleWarnings := consoleWarnings st @
               [''Max retries reached for action: '' @ action_id action] \<rparr>) \<and>
   offline (scheduleRetry action st) = offline st \<and>
   (filter (\<lambda>t. timer_handle t = h) (armedTimers st) = t # ts \<and>
    \<not> processPendingAction (timer_action t) \<longrightarrow>
      map action_id (pendingActions (offline (retryTimerFires h st))) =
        map action_id (pendingActions (offline st)))"
proof -
  have sched: "\<And>a s. offline (scheduleRetry a s) = offline s"
    by (simp add: scheduleRetry_def)
  have fired: "filter (\<lambda>t. timer_handle t = h) (armedTimers st) = t # ts \<Longrightarrow>
      \<not> processPendingAction (timer_action t) \<Longrightarrow>
      map action_id (pendingActions (offline (retryTimerFires h st))) =
        map action_id (pendingActions (offline st))"
    by (simp add: retryTimerFires_def Let_def sched comp_def cong: if_cong)
  show ?thesis
  proof (cases "retryCount action < 3")
    case True
    then consider "retryCount action = 0" | "retryCount action = 1" | "retryCount action = 2"
      by arith
    then have "min (1000 * 2 ^ retryCount action) 30000 =
        (if retryCount action = 0 then 1000 else if retryCount action = 1 then 2000 else (4000::int))"
      by cases simp_all
    then show ?thesis using True fired by (simp add: scheduleRetry_def retryDelay_def)
  next
    case False
    then show ?thesis using fired by (simp add: scheduleRetry_def)
  qed
qed

lemma retry_policy_example:
  "map timer_delay (armedTimers (scheduleRetry (failingAction\<lparr> retryCount := 1 \<rparr>) queuedStore))
     = [1000, 2000] \<and>
   armedTimers (scheduleRetry (failingAction\<lparr> retryCount := 3 \<rparr>) queuedStore)
     = armedTimers queuedStore \<and>
   pendingActions (offline (scheduleRetry (failingAction\<lparr> retryCount := 3 \<rparr>) queuedStore))
     = [failingAction]"
proof -
  have q: "queuedStore = \<lparr> offline = \<lparr> isOnline = True, pendingActions = [failingAction],
               lastSyncTime = None \<rparr>,
             retryTimeouts = [''1700000000000-k3x9q2m1z'' \<mapsto> 0],
             armedTimers = [\<lparr> timer_handle = 0, timer_delay = 1000, timer_action = failingAction \<rparr>],
             nextHandle = 1, consoleWarnings = [] \<rparr>"
    by (simp add: queuedStore_def addPendingAction_def createOfflineStore_def scheduleRetry_def
        processPendingAction_def retryDelay_def failingAction_def Let_def)
  have one: "retryCount (failingAction\<lparr> retryCount := 1 \<rparr>) < 3" by simp
  have three: "3 \<le> retryCount (failingAction\<lparr> retryCount := 3 \<rparr>)" by simp
  show ?thesis
    using retry_policy [of "failingAction\<lparr> retryCount := 1 \<rparr>" queuedStore]
          retry_policy [of "failingAction\<lparr> retryCount := 3 \<rparr>" queuedStore] one three
    by (simp add: q)
qed

text \<open>
  Claim C8 fails on the code at the retry limit. An action that no attempt can process is
  retried after 1, 2 and 4 seconds, as the claim says, and is never deleted from the queue.
  But when the third retry has failed, \<^verbatim>\<open>scheduleRetry\<close>, whose comment reads
  \<^verbatim>\<open>Max retries reached, move to failed actions or discard\<close>, only writes a console
  warning and returns: the action stays an ordinary entry of the pending queue with retry count 3,
  and nothing in the store marks it abandoned or reports it.
\<close>

theorem abandoned_action_only_warned:
  "map timer_delay (armedTimers queuedStore) = [1000] \<and>
   map timer_delay (armedTimers (retryTimerFires 0 queuedStore)) = [2000] \<and>
   map timer_delay (armedTimers (retryTimerFires 1 (retryTimerFires 0 queuedStore))) = [4000] \<and>
   abandonedStore =
     \<lparr> offline = \<lparr> isOnline = True, pendingActions = [failingAction\<lparr> retryCount := 3 \<rparr>],
                   lastSyncTime = None \<rparr>,
       retryTimeouts = [''1700000000000-k3x9q2m1z'' \<mapsto> 2],
       armedTimers = [], nextHandle = 3,
       consoleWarnings = [''Max retries reached for action: 1700000000000-k3x9q2m1z''] \<rparr>"
  by (simp add: abandonedStore_def queuedStore_def addPendingAction_def createOfflineStore_def
      retryTimerFires_def scheduleRetry_def processPendingAction_def retryDelay_def
      failingAction_def numeral_2_eq_2 numeral_3_eq_3 Let_def)

end
